theory Spec2Isabelle
  imports Main "HOL-Library.Word"
begin

unbundle bit_operations_syntax

section \<open>The test environment of the A64 demo (src/demo.c)\<close>

text \<open>
  The class \<open>A64TestEnv\<close> implements the callback interface of the execution engine.
  Its member functions are embedded as functions on a record of its fields. Every member
  function is non-const in the source, so each one that returns a value is embedded as a
  function returning the value together with the environment after the call; a \<open>void\<close>
  member function returns the environment after the call.

  The fixed-width integers are words: \<open>+\<close>, \<open>-\<close> and \<open>*\<close> wrap around as the unsigned
  C++ operators do, \<open>ucast\<close> is \<open>static_cast\<close> to another unsigned width (truncating or
  zero-extending), \<open>push_bit\<close> is \<open><<\<close> and \<open>drop_bit\<close> is \<open>>>\<close>. \<open>size_t\<close> is taken as
  64 bits wide, as on every host the engine supports.
\<close>

type_synonym u8 = "8 word"
type_synonym u16 = "16 word"
type_synonym u32 = "32 word"
type_synonym u64 = "64 word"

text \<open>\<open>Vector\<close> is \<open>std::array<u64, 2>\<close>: element 0 first.\<close>

type_synonym Vector = "u64 \<times> u64"

record A64TestEnv =
  ticks_left :: u64
  code_mem_modified_by_guest :: bool
  code_mem_start_address :: u64
  code_mem :: "u32 list"
  modified_memory :: "u64 \<rightharpoonup> u8"
  interrupts :: "string list"

text \<open>The default member initialisers: what \<open>A64TestEnv env;\<close> constructs.\<close>

definition A64TestEnv_init :: A64TestEnv where
  "A64TestEnv_init =
     \<lparr> ticks_left = 0,
       code_mem_modified_by_guest = False,
       code_mem_start_address = 0,
       code_mem = [],
       modified_memory = Map.empty,
       interrupts = [] \<rparr>"

text \<open>
  The environment \<open>main\<close> hands to the engine: 100 ticks and seven instruction words at
  address 0.
\<close>

definition main_env :: A64TestEnv where
  "main_env =
     A64TestEnv_init
       \<lparr> ticks_left := 100,
         code_mem := [0xD2800000, 0xD2800001, 0xD2800042, 0x91000421,
                      0x8B020000, 0xF1000C3F, 0x54FFFFA1] \<rparr>"

subsection \<open>The code region\<close>

definition IsInCodeMem :: "A64TestEnv \<Rightarrow> u64 \<Rightarrow> bool" where
  "IsInCodeMem e vaddr \<longleftrightarrow>
     vaddr \<ge> code_mem_start_address e \<and>
     vaddr < code_mem_start_address e + word_of_nat (length (code_mem e)) * 4"

text \<open>
  \<open>code_mem[index]\<close> is modelled by \<open>!\<close>: lemma \<open>IsInCodeMem_index\<close> below shows that
  the index is within the vector whenever the source reaches the access.
\<close>

definition MemoryReadCode :: "A64TestEnv \<Rightarrow> u64 \<Rightarrow> u32 option \<times> A64TestEnv" where
  "MemoryReadCode e vaddr =
     (if \<not> IsInCodeMem e vaddr then (Some 0x14000000, e)
      else
        let index = unat ((vaddr - code_mem_start_address e) div 4)
        in (Some (code_mem e ! index), e))"

subsection \<open>Reads\<close>

text \<open>
  \<open>reinterpret_cast<u8*>(code_mem.data())[i]\<close>: byte \<open>i\<close> of the storage of the word
  vector. On the little-endian hosts of the engine that is byte \<open>i mod 4\<close>, counted from
  the least significant one, of word \<open>i div 4\<close>.
\<close>

definition u32_byte :: "u32 \<Rightarrow> nat \<Rightarrow> u8" where
  "u32_byte w k = ucast (drop_bit (8 * k) w)"

definition code_mem_data_u8 :: "u32 list \<Rightarrow> nat \<Rightarrow> u8" where
  "code_mem_data_u8 ws i = u32_byte (ws ! (i div 4)) (i mod 4)"

definition MemoryRead8 :: "A64TestEnv \<Rightarrow> u64 \<Rightarrow> u8 \<times> A64TestEnv" where
  "MemoryRead8 e vaddr =
     (if IsInCodeMem e vaddr
      then (code_mem_data_u8 (code_mem e) (unat (vaddr - code_mem_start_address e)), e)
      else
        (case modified_memory e vaddr of
           Some v \<Rightarrow> (v, e)
         | None \<Rightarrow> (ucast vaddr, e)))"

text \<open>
  The two operands of \<open>|\<close> are evaluated here left to right. C++ leaves the order open;
  a read returns the environment as it found it, so the order cannot matter.
\<close>

definition MemoryRead16 :: "A64TestEnv \<Rightarrow> u64 \<Rightarrow> u16 \<times> A64TestEnv" where
  "MemoryRead16 e vaddr =
     (let (lo, e1) = MemoryRead8 e vaddr;
          (hi, e2) = MemoryRead8 e1 (vaddr + 1)
      in (ucast lo OR push_bit 8 (ucast hi), e2))"

definition MemoryRead32 :: "A64TestEnv \<Rightarrow> u64 \<Rightarrow> u32 \<times> A64TestEnv" where
  "MemoryRead32 e vaddr =
     (let (lo, e1) = MemoryRead16 e vaddr;
          (hi, e2) = MemoryRead16 e1 (vaddr + 2)
      in (ucast lo OR push_bit 16 (ucast hi), e2))"

definition MemoryRead64 :: "A64TestEnv \<Rightarrow> u64 \<Rightarrow> u64 \<times> A64TestEnv" where
  "MemoryRead64 e vaddr =
     (let (lo, e1) = MemoryRead32 e vaddr;
          (hi, e2) = MemoryRead32 e1 (vaddr + 4)
      in (ucast lo OR push_bit 32 (ucast hi), e2))"

definition MemoryRead128 :: "A64TestEnv \<Rightarrow> u64 \<Rightarrow> Vector \<times> A64TestEnv" where
  "MemoryRead128 e vaddr =
     (let (v0, e1) = MemoryRead64 e vaddr;
          (v1, e2) = MemoryRead64 e1 (vaddr + 8)
      in ((v0, v1), e2))"

subsection \<open>Writes\<close>

definition MemoryWrite8 :: "A64TestEnv \<Rightarrow> u64 \<Rightarrow> u8 \<Rightarrow> A64TestEnv" where
  "MemoryWrite8 e vaddr val =
     (let e1 = (if IsInCodeMem e vaddr then e\<lparr>code_mem_modified_by_guest := True\<rparr> else e)
      in e1\<lparr>modified_memory := (modified_memory e1)(vaddr \<mapsto> val)\<rparr>)"

definition MemoryWrite16 :: "A64TestEnv \<Rightarrow> u64 \<Rightarrow> u16 \<Rightarrow> A64TestEnv" where
  "MemoryWrite16 e vaddr val =
     (let e1 = MemoryWrite8 e vaddr (ucast val)
      in MemoryWrite8 e1 (vaddr + 1) (ucast (drop_bit 8 val)))"

definition MemoryWrite32 :: "A64TestEnv \<Rightarrow> u64 \<Rightarrow> u32 \<Rightarrow> A64TestEnv" where
  "MemoryWrite32 e vaddr val =
     (let e1 = MemoryWrite16 e vaddr (ucast val)
      in MemoryWrite16 e1 (vaddr + 2) (ucast (drop_bit 16 val)))"

definition MemoryWrite64 :: "A64TestEnv \<Rightarrow> u64 \<Rightarrow> u64 \<Rightarrow> A64TestEnv" where
  "MemoryWrite64 e vaddr val =
     (let e1 = MemoryWrite32 e vaddr (ucast val)
      in MemoryWrite32 e1 (vaddr + 4) (ucast (drop_bit 32 val)))"

definition MemoryWrite128 :: "A64TestEnv \<Rightarrow> u64 \<Rightarrow> Vector \<Rightarrow> A64TestEnv" where
  "MemoryWrite128 e vaddr val =
     (let e1 = MemoryWrite64 e vaddr (fst val)
      in MemoryWrite64 e1 (vaddr + 8) (snd val))"

subsection \<open>Exclusive writes\<close>

definition MemoryWriteExclusive8 :: "A64TestEnv \<Rightarrow> u64 \<Rightarrow> u8 \<Rightarrow> u8 \<Rightarrow> bool \<times> A64TestEnv" where
  "MemoryWriteExclusive8 e vaddr val expected = (True, MemoryWrite8 e vaddr val)"

definition MemoryWriteExclusive16 :: "A64TestEnv \<Rightarrow> u64 \<Rightarrow> u16 \<Rightarrow> u16 \<Rightarrow> bool \<times> A64TestEnv" where
  "MemoryWriteExclusive16 e vaddr val expected = (True, MemoryWrite16 e vaddr val)"

definition MemoryWriteExclusive32 :: "A64TestEnv \<Rightarrow> u64 \<Rightarrow> u32 \<Rightarrow> u32 \<Rightarrow> bool \<times> A64TestEnv" where
  "MemoryWriteExclusive32 e vaddr val expected = (True, MemoryWrite32 e vaddr val)"

definition MemoryWriteExclusive64 :: "A64TestEnv \<Rightarrow> u64 \<Rightarrow> u64 \<Rightarrow> u64 \<Rightarrow> bool \<times> A64TestEnv" where
  "MemoryWriteExclusive64 e vaddr val expected = (True, MemoryWrite64 e vaddr val)"

definition MemoryWriteExclusive128 ::
  "A64TestEnv \<Rightarrow> u64 \<Rightarrow> Vector \<Rightarrow> Vector \<Rightarrow> bool \<times> A64TestEnv" where
  "MemoryWriteExclusive128 e vaddr val expected = (True, MemoryWrite128 e vaddr val)"

subsection \<open>Events of the engine\<close>

text \<open>
  The three bodies are empty in the source (the assertions are commented out). The type
  of the exception, \<open>Dynarmic::A64::Exception\<close>, belongs to the engine and is a parameter.
\<close>

definition InterpreterFallback :: "A64TestEnv \<Rightarrow> u64 \<Rightarrow> u64 \<Rightarrow> A64TestEnv" where
  "InterpreterFallback e pc num_instructions = e"

definition CallSVC :: "A64TestEnv \<Rightarrow> u32 \<Rightarrow> A64TestEnv" where
  "CallSVC e swi = e"

definition ExceptionRaised :: "A64TestEnv \<Rightarrow> u64 \<Rightarrow> 'x \<Rightarrow> A64TestEnv" where
  "ExceptionRaised e pc exception = e"

subsection \<open>Ticks\<close>

definition AddTicks :: "A64TestEnv \<Rightarrow> u64 \<Rightarrow> A64TestEnv" where
  "AddTicks e ticks =
     (if ticks > ticks_left e then e\<lparr>ticks_left := 0\<rparr>
      else e\<lparr>ticks_left := ticks_left e - ticks\<rparr>)"

definition GetTicksRemaining :: "A64TestEnv \<Rightarrow> u64 \<times> A64TestEnv" where
  "GetTicksRemaining e = (ticks_left e, e)"

definition GetCNTPCT :: "A64TestEnv \<Rightarrow> u64 \<times> A64TestEnv" where
  "GetCNTPCT e = (0x10000000000 - ticks_left e, e)"

subsection \<open>Sequences of calls\<close>

text \<open>
  The engine drives the environment by a sequence of calls of the member functions. A
  call is a value of \<open>callback\<close>, \<open>invoke\<close> gives the environment after one call, and
  \<open>run\<close> the environment after a sequence of calls.
\<close>

datatype 'x callback =
    CbMemoryReadCode u64
  | CbMemoryRead8 u64
  | CbMemoryRead16 u64
  | CbMemoryRead32 u64
  | CbMemoryRead64 u64
  | CbMemoryRead128 u64
  | CbMemoryWrite8 u64 u8
  | CbMemoryWrite16 u64 u16
  | CbMemoryWrite32 u64 u32
  | CbMemoryWrite64 u64 u64
  | CbMemoryWrite128 u64 Vector
  | CbMemoryWriteExclusive8 u64 u8 u8
  | CbMemoryWriteExclusive16 u64 u16 u16
  | CbMemoryWriteExclusive32 u64 u32 u32
  | CbMemoryWriteExclusive64 u64 u64 u64
  | CbMemoryWriteExclusive128 u64 Vector Vector
  | CbInterpreterFallback u64 u64
  | CbCallSVC u32
  | CbExceptionRaised u64 'x
  | CbAddTicks u64
  | CbGetTicksRemaining
  | CbGetCNTPCT

fun invoke :: "'x callback \<Rightarrow> A64TestEnv \<Rightarrow> A64TestEnv" where
  "invoke (CbMemoryReadCode a) e = snd (MemoryReadCode e a)"
| "invoke (CbMemoryRead8 a) e = snd (MemoryRead8 e a)"
| "invoke (CbMemoryRead16 a) e = snd (MemoryRead16 e a)"
| "invoke (CbMemoryRead32 a) e = snd (MemoryRead32 e a)"
| "invoke (CbMemoryRead64 a) e = snd (MemoryRead64 e a)"
| "invoke (CbMemoryRead128 a) e = snd (MemoryRead128 e a)"
| "invoke (CbMemoryWrite8 a v) e = MemoryWrite8 e a v"
| "invoke (CbMemoryWrite16 a v) e = MemoryWrite16 e a v"
| "invoke (CbMemoryWrite32 a v) e = MemoryWrite32 e a v"
| "invoke (CbMemoryWrite64 a v) e = MemoryWrite64 e a v"
| "invoke (CbMemoryWrite128 a v) e = MemoryWrite128 e a v"
| "invoke (CbMemoryWriteExclusive8 a v x) e = snd (MemoryWriteExclusive8 e a v x)"
| "invoke (CbMemoryWriteExclusive16 a v x) e = snd (MemoryWriteExclusive16 e a v x)"
| "invoke (CbMemoryWriteExclusive32 a v x) e = snd (MemoryWriteExclusive32 e a v x)"
| "invoke (CbMemoryWriteExclusive64 a v x) e = snd (MemoryWriteExclusive64 e a v x)"
| "invoke (CbMemoryWriteExclusive128 a v x) e = snd (MemoryWriteExclusive128 e a v x)"
| "invoke (CbInterpreterFallback pc n) e = InterpreterFallback e pc n"
| "invoke (CbCallSVC swi) e = CallSVC e swi"
| "invoke (CbExceptionRaised pc x) e = ExceptionRaised e pc x"
| "invoke (CbAddTicks n) e = AddTicks e n"
| "invoke CbGetTicksRemaining e = snd (GetTicksRemaining e)"
| "invoke CbGetCNTPCT e = snd (GetCNTPCT e)"

fun run :: "'x callback list \<Rightarrow> A64TestEnv \<Rightarrow> A64TestEnv" where
  "run [] e = e"
| "run (cb # cbs) e = run cbs (invoke cb e)"

text \<open>The addresses a call stores a byte at, in the order of the stores.\<close>

fun written :: "'x callback \<Rightarrow> u64 list" where
  "written (CbMemoryWrite8 a v) = [a]"
| "written (CbMemoryWrite16 a v) = [a, a + 1]"
| "written (CbMemoryWrite32 a v) = [a, a + 1, a + 2, a + 3]"
| "written (CbMemoryWrite64 a v) = [a, a + 1, a + 2, a + 3, a + 4, a + 5, a + 6, a + 7]"
| "written (CbMemoryWrite128 a v) =
     [a, a + 1, a + 2, a + 3, a + 4, a + 5, a + 6, a + 7,
      a + 8, a + 9, a + 10, a + 11, a + 12, a + 13, a + 14, a + 15]"
| "written (CbMemoryWriteExclusive8 a v x) = [a]"
| "written (CbMemoryWriteExclusive16 a v x) = [a, a + 1]"
| "written (CbMemoryWriteExclusive32 a v x) = [a, a + 1, a + 2, a + 3]"
| "written (CbMemoryWriteExclusive64 a v x) =
     [a, a + 1, a + 2, a + 3, a + 4, a + 5, a + 6, a + 7]"
| "written (CbMemoryWriteExclusive128 a v x) =
     [a, a + 1, a + 2, a + 3, a + 4, a + 5, a + 6, a + 7,
      a + 8, a + 9, a + 10, a + 11, a + 12, a + 13, a + 14, a + 15]"
| "written _ = []"

subsection \<open>The code region as a range of integers\<close>

text \<open>
  The specification of the environment describes the code region over the integers: an
  address \<open>a\<close> is in code iff \<open>base_address \<le> a < base_address + 4 * len(words)\<close>.
  \<open>spec_in_code_region\<close> is that reading, written here to be compared with \<open>IsInCodeMem\<close>,
  which is the test the source computes in 64-bit arithmetic.
\<close>

definition spec_in_code_region :: "A64TestEnv \<Rightarrow> u64 \<Rightarrow> bool" where
  "spec_in_code_region e a \<longleftrightarrow>
     unat (code_mem_start_address e) \<le> unat a \<and>
     unat a < unat (code_mem_start_address e) + 4 * length (code_mem e)"

text \<open>
  The seven words of \<open>main\<close> placed at the top of the address space: the region is the
  last 28 bytes, from \<open>0xFFFFFFFFFFFFFFE4\<close> to \<open>0xFFFFFFFFFFFFFFFF\<close>. The start address is a
  public field of the class and any 64-bit value can be stored in it.
\<close>

definition top_env :: A64TestEnv where
  "top_env = main_env \<lparr> code_mem_start_address := 0xFFFFFFFFFFFFFFE4 \<rparr>"

section \<open>Basic facts\<close>

subsection \<open>The accesses to the code vector are in range\<close>

text \<open>
  An address inside the code region has an offset below four times the number of words,
  also when the end of the region would wrap around: then no address is inside. So both
  \<open>code_mem[index]\<close> and the byte access stay inside the vector.
\<close>

lemma IsInCodeMem_offset:
  assumes "IsInCodeMem e a"
  shows "unat (a - code_mem_start_address e) div 4 < length (code_mem e)"
proof (cases "length (code_mem e) < 2 ^ 62")
  case True
  define n where "n = length (code_mem e)"
  define s where "s = code_mem_start_address e"
  define t :: u64 where "t = s + word_of_nat n * 4"
  have n: "n < 2 ^ 62" using True by (simp add: n_def)
  have un: "unat (word_of_nat n * 4 :: u64) = 4 * n"
    using n by (simp add: unat_word_ariths unat_of_nat take_bit_nat_eq_self)
  from assms have le: "unat s \<le> unat a" and lt: "unat a < unat t"
    by (simp_all add: IsInCodeMem_def s_def n_def t_def word_le_nat_alt word_less_nat_alt)
  have "unat t = (unat s + 4 * n) mod 2 ^ 64"
    unfolding t_def using un by (simp add: unat_word_ariths)
  also have "\<dots> \<le> unat s + 4 * n" by (rule mod_less_eq_dividend)
  finally have "unat a < unat s + 4 * n" using lt by simp
  then have "unat a - unat s < n * 4" using le by linarith
  moreover have "unat (a - s) = unat a - unat s"
    using le by (simp add: unat_sub word_le_nat_alt)
  ultimately have "unat (a - s) div 4 < n"
    by (simp add: less_mult_imp_div_less)
  then show ?thesis by (simp add: n_def s_def)
next
  case False
  have "unat (a - code_mem_start_address e) < 2 ^ 64"
    using unsigned_less [of "a - code_mem_start_address e"] by simp
  then have "unat (a - code_mem_start_address e) div 4 < 2 ^ 62" by simp
  with False show ?thesis by simp
qed

lemma IsInCodeMem_index:
  "IsInCodeMem e a \<Longrightarrow> unat ((a - code_mem_start_address e) div 4) < length (code_mem e)"
  using IsInCodeMem_offset [of e a] by (simp add: unat_div)

lemma IsInCodeMem_nat:
  "IsInCodeMem e a \<Longrightarrow>
     unat ((a - code_mem_start_address e) div 4) = (unat a - unat (code_mem_start_address e)) div 4"
  by (simp add: IsInCodeMem_def unat_div unat_sub)

lemma snd_MemoryReadCode [simp]: "snd (MemoryReadCode e a) = e"
  by (simp add: MemoryReadCode_def Let_def)

lemma snd_MemoryRead8 [simp]: "snd (MemoryRead8 e a) = e"
  by (simp add: MemoryRead8_def split: option.split)

lemma MemoryRead8_pair: "MemoryRead8 e a = (fst (MemoryRead8 e a), e)"
  by (metis prod.collapse snd_MemoryRead8)

subsection \<open>Composed reads and the frame of the writes\<close>

lemma MemoryRead16_eq:
  "MemoryRead16 e a =
     (ucast (fst (MemoryRead8 e a)) OR push_bit 8 (ucast (fst (MemoryRead8 e (a + 1)))), e)"
  by (simp add: MemoryRead16_def case_prod_beta)

lemma MemoryRead32_eq:
  "MemoryRead32 e a =
     (ucast (fst (MemoryRead16 e a)) OR push_bit 16 (ucast (fst (MemoryRead16 e (a + 2)))), e)"
  by (simp add: MemoryRead32_def case_prod_beta MemoryRead16_eq)

lemma MemoryRead64_eq:
  "MemoryRead64 e a =
     (ucast (fst (MemoryRead32 e a)) OR push_bit 32 (ucast (fst (MemoryRead32 e (a + 4)))), e)"
  by (simp add: MemoryRead64_def case_prod_beta MemoryRead32_eq)

lemma MemoryRead128_eq:
  "MemoryRead128 e a = ((fst (MemoryRead64 e a), fst (MemoryRead64 e (a + 8))), e)"
  by (simp add: MemoryRead128_def case_prod_beta MemoryRead64_eq)

lemma MemoryWrite8_frame [simp]:
  "code_mem (MemoryWrite8 e a v) = code_mem e"
  "code_mem_start_address (MemoryWrite8 e a v) = code_mem_start_address e"
  "ticks_left (MemoryWrite8 e a v) = ticks_left e"
  "interrupts (MemoryWrite8 e a v) = interrupts e"
  by (simp_all add: MemoryWrite8_def)

lemma MemoryWrite8_modified_memory [simp]:
  "modified_memory (MemoryWrite8 e a v) = (modified_memory e)(a \<mapsto> v)"
  by (simp add: MemoryWrite8_def)

lemma MemoryWrite8_flag [simp]:
  "code_mem_modified_by_guest (MemoryWrite8 e a v) \<longleftrightarrow>
     code_mem_modified_by_guest e \<or> IsInCodeMem e a"
  by (simp add: MemoryWrite8_def)

lemma MemoryWrite8_IsInCodeMem [simp]:
  "IsInCodeMem (MemoryWrite8 e a v) b = IsInCodeMem e b"
  by (simp add: IsInCodeMem_def)

lemma MemoryWrite16_frame [simp]:
  "code_mem (MemoryWrite16 e a v) = code_mem e"
  "code_mem_start_address (MemoryWrite16 e a v) = code_mem_start_address e"
  "ticks_left (MemoryWrite16 e a v) = ticks_left e"
  "interrupts (MemoryWrite16 e a v) = interrupts e"
  by (simp_all add: MemoryWrite16_def)

lemma MemoryWrite16_IsInCodeMem [simp]:
  "IsInCodeMem (MemoryWrite16 e a v) b = IsInCodeMem e b"
  by (simp add: IsInCodeMem_def)

lemma MemoryWrite16_flag:
  "code_mem_modified_by_guest e \<Longrightarrow> code_mem_modified_by_guest (MemoryWrite16 e a v)"
  by (simp add: MemoryWrite16_def)

lemma MemoryWrite16_dom:
  "dom (modified_memory (MemoryWrite16 e a v)) = dom (modified_memory e) \<union> {a, a + 1}"
  by (auto simp add: MemoryWrite16_def)

lemma MemoryWrite32_frame [simp]:
  "code_mem (MemoryWrite32 e a v) = code_mem e"
  "code_mem_start_address (MemoryWrite32 e a v) = code_mem_start_address e"
  "ticks_left (MemoryWrite32 e a v) = ticks_left e"
  "interrupts (MemoryWrite32 e a v) = interrupts e"
  by (simp_all add: MemoryWrite32_def)

lemma MemoryWrite32_IsInCodeMem [simp]:
  "IsInCodeMem (MemoryWrite32 e a v) b = IsInCodeMem e b"
  by (simp add: IsInCodeMem_def)

lemma MemoryWrite32_flag:
  "code_mem_modified_by_guest e \<Longrightarrow> code_mem_modified_by_guest (MemoryWrite32 e a v)"
  by (simp add: MemoryWrite32_def MemoryWrite16_flag)

lemma MemoryWrite32_dom:
  "dom (modified_memory (MemoryWrite32 e a v)) =
     dom (modified_memory e) \<union> {a, a + 1, a + 2, a + 3}"
  by (auto simp add: MemoryWrite32_def MemoryWrite16_dom)

lemma MemoryWrite64_frame [simp]:
  "code_mem (MemoryWrite64 e a v) = code_mem e"
  "code_mem_start_address (MemoryWrite64 e a v) = code_mem_start_address e"
  "ticks_left (MemoryWrite64 e a v) = ticks_left e"
  "interrupts (MemoryWrite64 e a v) = interrupts e"
  by (simp_all add: MemoryWrite64_def)

lemma MemoryWrite64_IsInCodeMem [simp]:
  "IsInCodeMem (MemoryWrite64 e a v) b = IsInCodeMem e b"
  by (simp add: IsInCodeMem_def)

lemma MemoryWrite64_flag:
  "code_mem_modified_by_guest e \<Longrightarrow> code_mem_modified_by_guest (MemoryWrite64 e a v)"
  by (simp add: MemoryWrite64_def MemoryWrite32_flag)

lemma MemoryWrite64_dom:
  "dom (modified_memory (MemoryWrite64 e a v)) =
     dom (modified_memory e) \<union> {a, a + 1, a + 2, a + 3, a + 4, a + 5, a + 6, a + 7}"
  by (auto simp add: MemoryWrite64_def MemoryWrite32_dom)

lemma MemoryWrite128_frame [simp]:
  "code_mem (MemoryWrite128 e a v) = code_mem e"
  "code_mem_start_address (MemoryWrite128 e a v) = code_mem_start_address e"
  "ticks_left (MemoryWrite128 e a v) = ticks_left e"
  "interrupts (MemoryWrite128 e a v) = interrupts e"
  by (simp_all add: MemoryWrite128_def)

lemma MemoryWrite128_IsInCodeMem [simp]:
  "IsInCodeMem (MemoryWrite128 e a v) b = IsInCodeMem e b"
  by (simp add: IsInCodeMem_def)

lemma MemoryWrite128_flag:
  "code_mem_modified_by_guest e \<Longrightarrow> code_mem_modified_by_guest (MemoryWrite128 e a v)"
  by (simp add: MemoryWrite128_def MemoryWrite64_flag)

lemma MemoryWrite128_dom:
  "dom (modified_memory (MemoryWrite128 e a v)) =
     dom (modified_memory e) \<union>
       {a, a + 1, a + 2, a + 3, a + 4, a + 5, a + 6, a + 7,
        a + 8, a + 9, a + 10, a + 11, a + 12, a + 13, a + 14, a + 15}"
  by (auto simp add: MemoryWrite128_def MemoryWrite64_dom)

subsection \<open>What a call leaves unchanged\<close>

lemma AddTicks_frame [simp]:
  "code_mem (AddTicks e n) = code_mem e"
  "code_mem_start_address (AddTicks e n) = code_mem_start_address e"
  "modified_memory (AddTicks e n) = modified_memory e"
  "code_mem_modified_by_guest (AddTicks e n) = code_mem_modified_by_guest e"
  "interrupts (AddTicks e n) = interrupts e"
  by (simp_all add: AddTicks_def)

lemma invoke_code_mem [simp]: "code_mem (invoke cb e) = code_mem e"
  by (cases cb)
    (simp_all add: MemoryRead16_eq MemoryRead32_eq MemoryRead64_eq MemoryRead128_eq
      MemoryWriteExclusive8_def MemoryWriteExclusive16_def MemoryWriteExclusive32_def
      MemoryWriteExclusive64_def MemoryWriteExclusive128_def
      InterpreterFallback_def CallSVC_def ExceptionRaised_def
      GetTicksRemaining_def GetCNTPCT_def)

lemma invoke_code_mem_start_address [simp]:
  "code_mem_start_address (invoke cb e) = code_mem_start_address e"
  by (cases cb)
    (simp_all add: MemoryRead16_eq MemoryRead32_eq MemoryRead64_eq MemoryRead128_eq
      MemoryWriteExclusive8_def MemoryWriteExclusive16_def MemoryWriteExclusive32_def
      MemoryWriteExclusive64_def MemoryWriteExclusive128_def
      InterpreterFallback_def CallSVC_def ExceptionRaised_def
      GetTicksRemaining_def GetCNTPCT_def)

lemma invoke_interrupts [simp]: "interrupts (invoke cb e) = interrupts e"
  by (cases cb)
    (simp_all add: MemoryRead16_eq MemoryRead32_eq MemoryRead64_eq MemoryRead128_eq
      MemoryWriteExclusive8_def MemoryWriteExclusive16_def MemoryWriteExclusive32_def
      MemoryWriteExclusive64_def MemoryWriteExclusive128_def
      InterpreterFallback_def CallSVC_def ExceptionRaised_def
      GetTicksRemaining_def GetCNTPCT_def)

lemma invoke_IsInCodeMem [simp]: "IsInCodeMem (invoke cb e) a = IsInCodeMem e a"
  by (simp add: IsInCodeMem_def)

lemma invoke_flag:
  "code_mem_modified_by_guest e \<Longrightarrow> code_mem_modified_by_guest (invoke cb e)"
  by (cases cb)
    (simp_all add: MemoryRead16_eq MemoryRead32_eq MemoryRead64_eq MemoryRead128_eq
      MemoryWriteExclusive8_def MemoryWriteExclusive16_def MemoryWriteExclusive32_def
      MemoryWriteExclusive64_def MemoryWriteExclusive128_def
      MemoryWrite16_flag MemoryWrite32_flag MemoryWrite64_flag MemoryWrite128_flag
      InterpreterFallback_def CallSVC_def ExceptionRaised_def
      GetTicksRemaining_def GetCNTPCT_def)

lemma invoke_dom:
  "dom (modified_memory (invoke cb e)) = dom (modified_memory e) \<union> set (written cb)"
  by (cases cb)
    (simp_all add: MemoryRead16_eq MemoryRead32_eq MemoryRead64_eq MemoryRead128_eq
      MemoryWriteExclusive8_def MemoryWriteExclusive16_def MemoryWriteExclusive32_def
      MemoryWriteExclusive64_def MemoryWriteExclusive128_def
      MemoryWrite16_dom MemoryWrite32_dom MemoryWrite64_dom MemoryWrite128_dom
      InterpreterFallback_def CallSVC_def ExceptionRaised_def
      GetTicksRemaining_def GetCNTPCT_def)

lemma run_code_mem [simp]: "code_mem (run cbs e) = code_mem e"
  by (induction cbs arbitrary: e) simp_all

lemma run_code_mem_start_address [simp]:
  "code_mem_start_address (run cbs e) = code_mem_start_address e"
  by (induction cbs arbitrary: e) simp_all

lemma run_interrupts [simp]: "interrupts (run cbs e) = interrupts e"
  by (induction cbs arbitrary: e) simp_all

lemma run_IsInCodeMem [simp]: "IsInCodeMem (run cbs e) a = IsInCodeMem e a"
  by (simp add: IsInCodeMem_def)

lemma run_flag:
  "code_mem_modified_by_guest e \<Longrightarrow> code_mem_modified_by_guest (run cbs e)"
  by (induction cbs arbitrary: e) (simp_all add: invoke_flag)

lemma run_dom:
  "dom (modified_memory (run cbs e)) = dom (modified_memory e) \<union> set (concat (map written cbs))"
  by (induction cbs arbitrary: e) (auto simp add: invoke_dom)

lemma run_append: "run (cbs @ cbs') e = run cbs' (run cbs e)"
  by (induction cbs arbitrary: e) simp_all

subsection \<open>The test of the source and the range of the specification\<close>

text \<open>
  Every address that passes \<open>IsInCodeMem\<close> is in the range of the specification. The
  converse holds when the region ends below \<open>2 ^ 64\<close>. When it reaches the end of the
  address space the end computed by the source wraps around, and in \<open>top_env\<close> it is 0:
  no address passes the test there.
\<close>

lemma IsInCodeMem_spec:
  assumes "IsInCodeMem e a"
  shows "spec_in_code_region e a"
proof -
  define n where "n = length (code_mem e)"
  define s where "s = code_mem_start_address e"
  define t :: u64 where "t = s + word_of_nat n * 4"
  from assms have le: "unat s \<le> unat a" and lt: "unat a < unat t"
    by (simp_all add: IsInCodeMem_def s_def n_def t_def word_le_nat_alt word_less_nat_alt)
  have "unat a < unat s + 4 * n"
  proof (cases "n < 2 ^ 62")
    case True
    then have un: "unat (word_of_nat n * 4 :: u64) = 4 * n"
      by (simp add: unat_word_ariths unat_of_nat take_bit_nat_eq_self)
    have "unat t = (unat s + 4 * n) mod 2 ^ 64"
      unfolding t_def using un by (simp add: unat_word_ariths)
    also have "\<dots> \<le> unat s + 4 * n" by (rule mod_less_eq_dividend)
    finally show ?thesis using lt by simp
  next
    case False
    have "unat a < 2 ^ 64" using unsigned_less [of a] by simp
    also have "(2 :: nat) ^ 64 = 4 * 2 ^ 62" by simp
    also have "\<dots> \<le> 4 * n" using False by simp
    finally show ?thesis by simp
  qed
  with le show ?thesis by (simp add: spec_in_code_region_def s_def n_def)
qed

lemma spec_IsInCodeMem:
  assumes fits: "unat (code_mem_start_address e) + 4 * length (code_mem e) < 2 ^ 64"
    and "spec_in_code_region e a"
  shows "IsInCodeMem e a"
proof -
  define n where "n = length (code_mem e)"
  define s where "s = code_mem_start_address e"
  from fits have f: "unat s + 4 * n < 2 ^ 64" by (simp add: s_def n_def)
  then have "4 * n < 4 * 2 ^ 62" by simp
  then have n: "n < 2 ^ 62" by simp
  then have un: "unat (word_of_nat n * 4 :: u64) = 4 * n"
    by (simp add: unat_word_ariths unat_of_nat take_bit_nat_eq_self)
  have "unat (s + word_of_nat n * 4) = (unat s + 4 * n) mod 2 ^ 64"
    using un by (simp add: unat_word_ariths)
  also have "\<dots> = unat s + 4 * n" using f by (rule mod_less)
  finally have "unat (s + word_of_nat n * 4) = unat s + 4 * n" .
  with assms(2) show ?thesis
    by (simp add: IsInCodeMem_def spec_in_code_region_def s_def n_def
        word_le_nat_alt word_less_nat_alt)
qed

lemma top_env_simps [simp]:
  "code_mem_start_address top_env = 0xFFFFFFFFFFFFFFE4"
  "code_mem top_env = [0xD2800000, 0xD2800001, 0xD2800042, 0x91000421,
                       0x8B020000, 0xF1000C3F, 0x54FFFFA1]"
  "code_mem_modified_by_guest top_env = False"
  "modified_memory top_env = Map.empty"
  by (simp_all add: top_env_def main_env_def A64TestEnv_init_def)

lemma top_env_spec_in: "spec_in_code_region top_env 0xFFFFFFFFFFFFFFE4"
  by (simp add: spec_in_code_region_def)

lemma top_env_end_wraps:
  "code_mem_start_address top_env + word_of_nat (length (code_mem top_env)) * 4 = 0"
  by simp

lemma top_env_not_IsInCodeMem: "\<not> IsInCodeMem top_env a"
  unfolding IsInCodeMem_def top_env_end_wraps by simp

section \<open>The claims\<close>

lemma main_env_simps [simp]:
  "ticks_left main_env = 100"
  "code_mem_modified_by_guest main_env = False"
  "code_mem_start_address main_env = 0"
  "code_mem main_env = [0xD2800000, 0xD2800001, 0xD2800042, 0x91000421,
                        0x8B020000, 0xF1000C3F, 0x54FFFFA1]"
  "modified_memory main_env = Map.empty"
  "interrupts main_env = []"
  by (simp_all add: main_env_def A64TestEnv_init_def)

subsection \<open>A byte written is the byte read, outside the code region\<close>

text \<open>
  Inside the code region \<open>MemoryRead8\<close> answers from the code vector before it looks at
  \<open>modified_memory\<close>, so a write there is recorded but not read back.
\<close>

lemma MemoryRead8_in_code:
  "IsInCodeMem e a \<Longrightarrow>
     fst (MemoryRead8 (MemoryWrite8 e a v) a) = fst (MemoryRead8 e a)"
  by (simp add: MemoryRead8_def)

text \<open>
  Claim C1, as amended: for every address \<open>a\<close> outside the code region and every byte
  \<open>v\<close>, \<open>MemoryRead8\<close> at \<open>a\<close> after \<open>MemoryWrite8\<close> of \<open>v\<close> at \<open>a\<close> returns \<open>v\<close>.
\<close>

theorem write8_read8_outside_code:
  "\<not> IsInCodeMem e a \<Longrightarrow> fst (MemoryRead8 (MemoryWrite8 e a v) a) = v"
  by (simp add: MemoryRead8_def)

theorem write8_read8_outside_code_witness:
  "\<not> IsInCodeMem main_env 0x1000 \<and>
   fst (MemoryRead8 (MemoryWrite8 main_env 0x1000 0xAB) 0x1000) = 0xAB"
proof -
  have h: "\<not> IsInCodeMem main_env 0x1000" by (simp add: IsInCodeMem_def)
  show ?thesis using h write8_read8_outside_code [of main_env "0x1000" "0xAB"] by simp
qed

text \<open>
  The claim as stated, for every address, fails inside the code region: in the
  environment of \<open>main\<close>, after writing \<open>0xFF\<close> at address 0 the byte read there is still
  the low byte \<open>0x00\<close> of the first instruction word.
\<close>

theorem write8_read8_in_code_counterexample:
  "IsInCodeMem main_env 0 \<and> fst (MemoryRead8 (MemoryWrite8 main_env 0 0xFF) 0) \<noteq> 0xFF"
  by (simp add: MemoryRead8_def IsInCodeMem_def code_mem_data_u8_def u32_byte_def)

subsection \<open>A write into the code region does not change what is fetched\<close>

lemma fetch_after_write_IsInCodeMem:
  "fst (MemoryReadCode (MemoryWrite8 e a v) f) = fst (MemoryReadCode e f)"
  "IsInCodeMem e a \<Longrightarrow>
     fst (MemoryReadCode (MemoryWrite8 e a v) a) =
       Some (code_mem e ! ((unat a - unat (code_mem_start_address e)) div 4))"
  "IsInCodeMem e a \<Longrightarrow>
     (unat a - unat (code_mem_start_address e)) div 4 < length (code_mem e)"
  using IsInCodeMem_index [of e a] IsInCodeMem_nat [of e a]
  by (simp_all add: MemoryReadCode_def)

text \<open>
  Claim C2, as amended: for every address \<open>a\<close> inside the code region, that is with
  \<open>base_address \<le> a < base_address + 4 * len(words)\<close>, of a region that ends below
  \<open>2 ^ 64\<close>: after \<open>MemoryWrite8\<close> at \<open>a\<close> the fetch at any address \<open>f\<close> returns what it
  returned before the write, the fetch of the word containing \<open>a\<close> returns the word
  stored in \<open>code_mem\<close> at index \<open>(a - base_address) / 4\<close>, not a word with the byte written,
  and \<open>code_mem_modified_by_guest\<close> is true. Nothing is said here of a region that reaches
  the end of the address space.
\<close>

theorem fetch_after_write_unchanged:
  assumes "spec_in_code_region e a"
    and "unat (code_mem_start_address e) + 4 * length (code_mem e) < 2 ^ 64"
  shows "fst (MemoryReadCode (MemoryWrite8 e a v) f) = fst (MemoryReadCode e f) \<and>
         (unat a - unat (code_mem_start_address e)) div 4 < length (code_mem e) \<and>
         fst (MemoryReadCode (MemoryWrite8 e a v) a) =
           Some (code_mem e ! ((unat a - unat (code_mem_start_address e)) div 4)) \<and>
         code_mem_modified_by_guest (MemoryWrite8 e a v)"
proof -
  have i: "IsInCodeMem e a"
    using assms(2) assms(1) by (rule spec_IsInCodeMem)
  have m: "code_mem_modified_by_guest (MemoryWrite8 e a v)"
    using i by simp
  show ?thesis
    by (rule conjI, rule fetch_after_write_IsInCodeMem(1),
        rule conjI, rule fetch_after_write_IsInCodeMem(3) [OF i],
        rule conjI, rule fetch_after_write_IsInCodeMem(2) [OF i], rule m)
qed

theorem fetch_after_write_unchanged_witness:
  "spec_in_code_region main_env 5 \<and>
   unat (code_mem_start_address main_env) + 4 * length (code_mem main_env) < 2 ^ 64 \<and>
   fst (MemoryReadCode (MemoryWrite8 main_env 5 0xFF) 4) = fst (MemoryReadCode main_env 4) \<and>
   fst (MemoryReadCode (MemoryWrite8 main_env 5 0xFF) 5) = Some 0xD2800001 \<and>
   code_mem_modified_by_guest (MemoryWrite8 main_env 5 0xFF)"
proof -
  have h: "spec_in_code_region main_env 5" by (simp add: spec_in_code_region_def)
  have k: "unat (code_mem_start_address main_env) + 4 * length (code_mem main_env) < 2 ^ 64"
    by simp
  have i: "(unat (5 :: u64) - unat (code_mem_start_address main_env)) div 4 = 1" by simp
  show ?thesis
    using h k fetch_after_write_unchanged [OF h k, of "0xFF" 4] unfolding i by simp
qed

text \<open>
  The claim as stated fails: in the environment of \<open>main\<close>, after writing \<open>0xFF\<close> at
  address 0 (inside the code region) the word fetched at 0 is still \<open>0xD2800000\<close>, whose
  byte 0 is not the byte written.
\<close>

theorem fetch_after_write_counterexample:
  "IsInCodeMem main_env 0 \<and>
   fst (MemoryReadCode (MemoryWrite8 main_env 0 0xFF) 0) = Some 0xD2800000 \<and>
   u32_byte 0xD2800000 0 \<noteq> 0xFF"
  by (simp add: MemoryReadCode_def IsInCodeMem_def u32_byte_def)

subsection \<open>The self-modification flag\<close>

text \<open>
  What the source does: the flag is false in a freshly constructed environment, a write
  at an address that passes \<open>IsInCodeMem\<close> sets it, and once it is true it is true after
  every sequence of calls of the member functions. For a region that ends below \<open>2 ^ 64\<close>
  the addresses that pass the test are those of the region.
\<close>

lemma flag_initially_false: "\<not> code_mem_modified_by_guest A64TestEnv_init"
  by (simp add: A64TestEnv_init_def)

lemma flag_set_where_region_fits:
  assumes "unat (code_mem_start_address e) + 4 * length (code_mem e) < 2 ^ 64"
    and "spec_in_code_region e a"
  shows "code_mem_modified_by_guest (MemoryWrite8 e a v)"
  using spec_IsInCodeMem [OF assms] by simp

lemma flag_sticky:
  "code_mem_modified_by_guest e \<Longrightarrow> code_mem_modified_by_guest (run cbs e)"
  by (rule run_flag)

text \<open>
  Claim C3: the flag is initially false, \<open>MemoryWrite8\<close> at any address inside the code
  region sets it, and once true it stays true under every later call. The source breaks
  the second part for a region that reaches the end of the address space: in \<open>top_env\<close>
  the first address of the region, \<open>0xFFFFFFFFFFFFFFE4\<close>, is inside the code region, and
  the flag is still false after \<open>MemoryWrite8\<close> there, because the end of the region
  computed by \<open>IsInCodeMem\<close> has wrapped to 0.
\<close>

theorem write_at_top_region_leaves_flag_false:
  "spec_in_code_region top_env 0xFFFFFFFFFFFFFFE4 \<and>
   \<not> code_mem_modified_by_guest top_env \<and>
   \<not> code_mem_modified_by_guest (MemoryWrite8 top_env 0xFFFFFFFFFFFFFFE4 0xFF)"
  by (simp add: top_env_spec_in top_env_not_IsInCodeMem)

subsection \<open>Ticks\<close>

text \<open>
  Claim C4: \<open>AddTicks\<close> saturates. Read as integers, the budget after consuming \<open>n\<close> is
  \<open>max 0 (B - n)\<close>: zero when \<open>n\<close> exceeds the budget \<open>B\<close>, and \<open>B - n\<close> without wrap-around
  otherwise; after consuming \<open>n1\<close> and then \<open>n2\<close> it is \<open>max 0 (B - n1 - n2)\<close>, where the
  subtractions are those of the integers, so it is never negative and never wraps.
\<close>

theorem AddTicks_saturating:
  "uint (ticks_left (AddTicks e n)) = max 0 (uint (ticks_left e) - uint n) \<and>
   ticks_left (AddTicks e n) = (if ticks_left e < n then 0 else ticks_left e - n) \<and>
   uint (ticks_left (AddTicks (AddTicks e n1) n2)) =
     max 0 (uint (ticks_left e) - uint n1 - uint n2)"
proof -
  have one: "uint (ticks_left (AddTicks e' m)) = max 0 (uint (ticks_left e') - uint m)"
    for e' m
    by (simp add: AddTicks_def word_less_def uint_sub_if' word_le_def)
  have two: "ticks_left (AddTicks e n) = (if ticks_left e < n then 0 else ticks_left e - n)"
    by (simp add: AddTicks_def)
  have "uint (ticks_left (AddTicks (AddTicks e n1) n2)) =
          max 0 (max 0 (uint (ticks_left e) - uint n1) - uint n2)"
    by (simp only: one)
  also have "\<dots> = max 0 (uint (ticks_left e) - uint n1 - uint n2)"
    using uint_ge_0 [of n2] by arith
  finally have three: "uint (ticks_left (AddTicks (AddTicks e n1) n2)) =
      max 0 (uint (ticks_left e) - uint n1 - uint n2)" .
  show ?thesis
    by (rule conjI, rule one, rule conjI, rule two, rule three)
qed

theorem AddTicks_saturating_witness:
  "ticks_left (AddTicks main_env 30) = 70 \<and>
   ticks_left (AddTicks main_env 101) = 0 \<and>
   uint (ticks_left (AddTicks (AddTicks main_env 60) 70)) = 0"
  using AddTicks_saturating [of main_env 30 60 70] AddTicks_saturating [of main_env 101 60 70]
  by simp

subsection \<open>Exclusive writes\<close>

text \<open>
  Claim C5: for each width 8, 16, 32, 64 and 128 the exclusive write returns true and
  leaves the environment that the plain write of the same width leaves, whatever the
  expected value is.
\<close>

theorem exclusive_writes_are_writes:
  "MemoryWriteExclusive8 e a v8 x8 = (True, MemoryWrite8 e a v8) \<and>
   MemoryWriteExclusive16 e a v16 x16 = (True, MemoryWrite16 e a v16) \<and>
   MemoryWriteExclusive32 e a v32 x32 = (True, MemoryWrite32 e a v32) \<and>
   MemoryWriteExclusive64 e a v64 x64 = (True, MemoryWrite64 e a v64) \<and>
   MemoryWriteExclusive128 e a v128 x128 = (True, MemoryWrite128 e a v128)"
  by (simp add: MemoryWriteExclusive8_def MemoryWriteExclusive16_def
      MemoryWriteExclusive32_def MemoryWriteExclusive64_def MemoryWriteExclusive128_def)

subsection \<open>Instruction fetch\<close>

text \<open>
  What the source does: at an address outside the code region the fetch returns the word
  \<open>0x14000000\<close> (branch to self) after any sequence of calls, writes included; at an
  address that passes \<open>IsInCodeMem\<close>, and so at every address of a region that ends below
  \<open>2 ^ 64\<close>, it returns the word of \<open>code_mem\<close> at index \<open>(b - code_mem_start_address) / 4\<close>,
  computed without wrap-around and within the vector, aligned or not.
\<close>

lemma MemoryReadCode_outside:
  assumes "\<not> spec_in_code_region e a"
  shows "fst (MemoryReadCode (run cbs e) a) = Some 0x14000000"
proof -
  have "\<not> IsInCodeMem e a" using assms IsInCodeMem_spec by blast
  then show ?thesis by (simp add: MemoryReadCode_def)
qed

lemma MemoryReadCode_IsInCodeMem:
  assumes "IsInCodeMem e b"
  shows "(unat b - unat (code_mem_start_address e)) div 4 < length (code_mem e) \<and>
         fst (MemoryReadCode (run cbs e) b) =
           Some (code_mem e ! ((unat b - unat (code_mem_start_address e)) div 4))"
  using assms IsInCodeMem_index [of e b] IsInCodeMem_nat [of e b]
  by (simp add: MemoryReadCode_def)

lemma MemoryReadCode_where_region_fits:
  assumes "unat (code_mem_start_address e) + 4 * length (code_mem e) < 2 ^ 64"
    and "spec_in_code_region e b"
  shows "(unat b - unat (code_mem_start_address e)) div 4 < length (code_mem e) \<and>
         fst (MemoryReadCode (run cbs e) b) =
           Some (code_mem e ! ((unat b - unat (code_mem_start_address e)) div 4))"
  using spec_IsInCodeMem [OF assms] by (rule MemoryReadCode_IsInCodeMem)

text \<open>
  Claim C6: outside the code region the fetch returns the sentinel word whatever was
  written before, and at every aligned address inside the code region it returns the
  stored word at index \<open>(a - base_address) / 4\<close>. The source breaks the second part for a
  region that reaches the end of the address space: in \<open>top_env\<close> the first address of
  the region, \<open>0xFFFFFFFFFFFFFFE4\<close>, is inside the code region and a multiple of 4, the word
  stored at index 0 is \<open>0xD2800000\<close>, and the fetch returns the sentinel \<open>0x14000000\<close>,
  because the end of the region computed by \<open>IsInCodeMem\<close> has wrapped to 0.
\<close>

theorem fetch_at_top_region_is_sentinel:
  "spec_in_code_region top_env 0xFFFFFFFFFFFFFFE4 \<and>
   (0xFFFFFFFFFFFFFFE4 :: u64) mod 4 = 0 \<and>
   code_mem top_env ! 0 = 0xD2800000 \<and>
   fst (MemoryReadCode top_env 0xFFFFFFFFFFFFFFE4) = Some 0x14000000"
  by (simp add: top_env_spec_in top_env_not_IsInCodeMem MemoryReadCode_def)

subsection \<open>Bytes and 32-bit words\<close>

lemma u8_of_u16_of_u32:
  "(ucast (ucast (v :: u32) :: u16) :: u8) = ucast v"
  "(ucast (drop_bit 8 (ucast (v :: u32) :: u16)) :: u8) = ucast (drop_bit 8 v)"
  by (rule bit_word_eqI; auto simp add: bit_simps)+

lemma u32_of_bytes:
  "(ucast (ucast (b0 :: u8) OR push_bit 8 (ucast (b1 :: u8)) :: u16) :: u32) OR
     push_bit 16 (ucast (ucast (b2 :: u8) OR push_bit 8 (ucast (b3 :: u8)) :: u16)) =
   ucast b0 OR push_bit 8 (ucast b1) OR push_bit 16 (ucast b2) OR push_bit 24 (ucast b3)"
proof (rule bit_word_eqI)
  fix n :: nat
  assume "n < LENGTH(32)"
  then show "bit ((ucast (ucast b0 OR push_bit 8 (ucast b1) :: u16) :: u32) OR
     push_bit 16 (ucast (ucast b2 OR push_bit 8 (ucast b3) :: u16))) n =
    bit ((ucast b0 :: u32) OR push_bit 8 (ucast b1) OR push_bit 16 (ucast b2) OR
      push_bit 24 (ucast b3)) n"
    by (cases "n < 8"; cases "n < 16"; cases "n < 24")
      (auto simp add: bit_simps dest: bit_imp_le_length)
qed

lemma u32_bytes_cat:
  "(ucast (u32_byte v 0) :: u32) OR push_bit 8 (ucast (u32_byte v 1)) OR
     push_bit 16 (ucast (u32_byte v 2)) OR push_bit 24 (ucast (u32_byte v 3)) = v"
proof (rule bit_word_eqI)
  fix n :: nat
  assume "n < LENGTH(32)"
  then show "bit ((ucast (u32_byte v 0) :: u32) OR push_bit 8 (ucast (u32_byte v 1)) OR
     push_bit 16 (ucast (u32_byte v 2)) OR push_bit 24 (ucast (u32_byte v 3))) n = bit v n"
    unfolding u32_byte_def
    by (cases "n < 8"; cases "n < 16"; cases "n < 24")
      (auto simp add: bit_simps dest: bit_imp_le_length)
qed

lemma u64_add_2_1: "(a :: u64) + 2 + 1 = a + 3"
  by simp

lemma MemoryRead8_outside:
  "\<not> IsInCodeMem e a \<Longrightarrow>
     fst (MemoryRead8 e a) = (case modified_memory e a of Some v \<Rightarrow> v | None \<Rightarrow> ucast a)"
  by (simp add: MemoryRead8_def split: option.split)

lemma MemoryWrite32_modified_memory:
  "modified_memory (MemoryWrite32 e a v) =
     (modified_memory e)(a \<mapsto> u32_byte v 0, a + 1 \<mapsto> u32_byte v 1,
        a + 2 \<mapsto> u32_byte v 2, a + 3 \<mapsto> u32_byte v 3)"
  unfolding MemoryWrite32_def MemoryWrite16_def Let_def MemoryWrite8_modified_memory
    u8_of_u16_of_u32 u32_byte_def u64_add_2_1 drop_bit_drop_bit
  by simp

lemma MemoryRead32_bytes:
  "fst (MemoryRead32 e a) =
     ucast (fst (MemoryRead8 e a)) OR push_bit 8 (ucast (fst (MemoryRead8 e (a + 1)))) OR
     push_bit 16 (ucast (fst (MemoryRead8 e (a + 2)))) OR
     push_bit 24 (ucast (fst (MemoryRead8 e (a + 3))))"
  unfolding MemoryRead32_eq MemoryRead16_eq fst_conv u32_of_bytes u64_add_2_1 ..

lemma u64_offsets_distinct:
  "(a :: u64) \<noteq> a + 1" "(a :: u64) \<noteq> a + 2" "(a :: u64) \<noteq> a + 3"
  "(a :: u64) + 1 \<noteq> a + 2" "(a :: u64) + 1 \<noteq> a + 3" "(a :: u64) + 2 \<noteq> a + 3"
  "(a :: u64) + 1 \<noteq> a" "(a :: u64) + 2 \<noteq> a" "(a :: u64) + 3 \<noteq> a"
  "(a :: u64) + 2 \<noteq> a + 1" "(a :: u64) + 3 \<noteq> a + 1" "(a :: u64) + 3 \<noteq> a + 2"
  by simp_all

lemma MemoryRead32_MemoryWrite32:
  assumes "\<not> IsInCodeMem e a" "\<not> IsInCodeMem e (a + 1)"
    "\<not> IsInCodeMem e (a + 2)" "\<not> IsInCodeMem e (a + 3)"
  shows "fst (MemoryRead32 (MemoryWrite32 e a v) a) = v"
  using assms u32_bytes_cat [of v]
  by (simp add: MemoryRead32_bytes MemoryRead8_outside MemoryWrite32_modified_memory
      u64_offsets_distinct)

text \<open>
  Claim C7, as amended: for every address \<open>a\<close> such that none of \<open>a\<close>, \<open>a + 1\<close>, \<open>a + 2\<close>
  and \<open>a + 3\<close> lies in the code region, and every 32-bit value \<open>v\<close>: after
  \<open>MemoryWrite32\<close> of \<open>v\<close> at \<open>a\<close> the four bytes read at \<open>a\<close>, \<open>a + 1\<close>, \<open>a + 2\<close>, \<open>a + 3\<close>
  are the bytes of \<open>v\<close> from the least significant one; and after four \<open>MemoryWrite8\<close> at
  these addresses \<open>MemoryRead32\<close> at \<open>a\<close> assembles the four bytes little-endian.
\<close>

theorem write32_bytes_roundtrip_outside_code:
  assumes "\<not> IsInCodeMem e a" and "\<not> IsInCodeMem e (a + 1)"
    and "\<not> IsInCodeMem e (a + 2)" and "\<not> IsInCodeMem e (a + 3)"
  shows "fst (MemoryRead8 (MemoryWrite32 e a v) a) = u32_byte v 0 \<and>
         fst (MemoryRead8 (MemoryWrite32 e a v) (a + 1)) = u32_byte v 1 \<and>
         fst (MemoryRead8 (MemoryWrite32 e a v) (a + 2)) = u32_byte v 2 \<and>
         fst (MemoryRead8 (MemoryWrite32 e a v) (a + 3)) = u32_byte v 3 \<and>
         fst (MemoryRead32
                (MemoryWrite8 (MemoryWrite8 (MemoryWrite8 (MemoryWrite8 e a b0) (a + 1) b1)
                   (a + 2) b2) (a + 3) b3) a) =
           ucast b0 OR push_bit 8 (ucast b1) OR push_bit 16 (ucast b2) OR push_bit 24 (ucast b3)"
proof -
  let ?w = "MemoryWrite32 e a v"
  let ?b = "MemoryWrite8 (MemoryWrite8 (MemoryWrite8 (MemoryWrite8 e a b0) (a + 1) b1)
              (a + 2) b2) (a + 3) b3"
  have r0: "fst (MemoryRead8 ?w a) = u32_byte v 0"
    using assms(1)
    by (simp add: MemoryRead8_outside MemoryWrite32_modified_memory u64_offsets_distinct)
  have r1: "fst (MemoryRead8 ?w (a + 1)) = u32_byte v 1"
    using assms(2)
    by (simp add: MemoryRead8_outside MemoryWrite32_modified_memory u64_offsets_distinct)
  have r2: "fst (MemoryRead8 ?w (a + 2)) = u32_byte v 2"
    using assms(3)
    by (simp add: MemoryRead8_outside MemoryWrite32_modified_memory u64_offsets_distinct)
  have r3: "fst (MemoryRead8 ?w (a + 3)) = u32_byte v 3"
    using assms(4)
    by (simp add: MemoryRead8_outside MemoryWrite32_modified_memory u64_offsets_distinct)
  have r4: "fst (MemoryRead32 ?b a) =
      ucast b0 OR push_bit 8 (ucast b1) OR push_bit 16 (ucast b2) OR push_bit 24 (ucast b3)"
    using assms
    by (simp add: MemoryRead32_bytes MemoryRead8_outside u64_offsets_distinct)
  show ?thesis
    by (rule conjI, rule r0, rule conjI, rule r1, rule conjI, rule r2, rule conjI, rule r3,
        rule r4)
qed

theorem write32_bytes_roundtrip_outside_code_witness:
  "\<not> IsInCodeMem main_env 0x1000 \<and> \<not> IsInCodeMem main_env (0x1000 + 1) \<and>
   \<not> IsInCodeMem main_env (0x1000 + 2) \<and> \<not> IsInCodeMem main_env (0x1000 + 3) \<and>
   fst (MemoryRead8 (MemoryWrite32 main_env 0x1000 0x11223344) 0x1000) = 0x44 \<and>
   fst (MemoryRead8 (MemoryWrite32 main_env 0x1000 0x11223344) (0x1000 + 1)) = 0x33 \<and>
   fst (MemoryRead8 (MemoryWrite32 main_env 0x1000 0x11223344) (0x1000 + 2)) = 0x22 \<and>
   fst (MemoryRead8 (MemoryWrite32 main_env 0x1000 0x11223344) (0x1000 + 3)) = 0x11 \<and>
   fst (MemoryRead32
          (MemoryWrite8 (MemoryWrite8 (MemoryWrite8 (MemoryWrite8 main_env 0x1000 0x44)
             (0x1000 + 1) 0x33) (0x1000 + 2) 0x22) (0x1000 + 3) 0x11) 0x1000) = 0x11223344"
proof -
  have h0: "\<not> IsInCodeMem main_env 0x1000" by (simp add: IsInCodeMem_def)
  have h1: "\<not> IsInCodeMem main_env (0x1000 + 1)" by (simp add: IsInCodeMem_def)
  have h2: "\<not> IsInCodeMem main_env (0x1000 + 2)" by (simp add: IsInCodeMem_def)
  have h3: "\<not> IsInCodeMem main_env (0x1000 + 3)" by (simp add: IsInCodeMem_def)
  have b: "u32_byte 0x11223344 0 = 0x44" "u32_byte 0x11223344 1 = 0x33"
    "u32_byte 0x11223344 2 = 0x22" "u32_byte 0x11223344 3 = 0x11"
    by (simp_all add: u32_byte_def drop_bit_eq_div)
  have c: "(ucast (0x44 :: u8) :: u32) OR push_bit 8 (ucast (0x33 :: u8)) OR
      push_bit 16 (ucast (0x22 :: u8)) OR push_bit 24 (ucast (0x11 :: u8)) = 0x11223344"
    by (simp add: push_bit_eq_mult)
  show ?thesis
    using h0 h1 h2 h3
      write32_bytes_roundtrip_outside_code [OF h0 h1 h2 h3, of "0x11223344" "0x44" "0x33" "0x22" "0x11"]
    unfolding b c by blast
qed

text \<open>
  The claim as stated, for every address, fails inside the code region, in both
  directions: in the environment of \<open>main\<close> the byte read at 0 after the 32-bit write of
  \<open>0x11223344\<close> at 0 is not \<open>0x44\<close>, and the 32-bit read at 0 after the four byte writes is
  not \<open>0x11223344\<close>.
\<close>

theorem write32_bytes_in_code_counterexample:
  "IsInCodeMem main_env 0 \<and>
   fst (MemoryRead8 (MemoryWrite32 main_env 0 0x11223344) 0) \<noteq> u32_byte 0x11223344 0 \<and>
   fst (MemoryRead32
          (MemoryWrite8 (MemoryWrite8 (MemoryWrite8 (MemoryWrite8 main_env 0 0x44) 1 0x33)
             2 0x22) 3 0x11) 0) \<noteq> 0x11223344"
  by (simp add: MemoryRead32_bytes MemoryRead8_def IsInCodeMem_def code_mem_data_u8_def
      u32_byte_def drop_bit_eq_div push_bit_eq_mult)

subsection \<open>The events of the engine\<close>

text \<open>
  Claim C8, as amended: each of \<open>InterpreterFallback\<close>, \<open>CallSVC\<close> and \<open>ExceptionRaised\<close>
  returns normally and leaves the whole environment as it was: the code region, the
  written bytes, the self-modification flag, the ticks, and also \<open>interrupts\<close>, to which
  nothing is appended.
\<close>

theorem event_callbacks_leave_state:
  "InterpreterFallback e pc n = e \<and> CallSVC e swi = e \<and> ExceptionRaised e pc x = e"
  by (simp add: InterpreterFallback_def CallSVC_def ExceptionRaised_def)

text \<open>
  The claim as stated says that each of the three appends a record. In the environment of
  \<open>main\<close> the log is empty after each of them.
\<close>

theorem event_callbacks_log_nothing_counterexample:
  "interrupts (InterpreterFallback main_env 0 1) = [] \<and>
   interrupts (CallSVC main_env 0) = [] \<and>
   interrupts (ExceptionRaised main_env 0 ()) = []"
  by (simp add: InterpreterFallback_def CallSVC_def ExceptionRaised_def)

subsection \<open>Reads of memory never written\<close>

lemma run_unwritten:
  "a \<notin> set (concat (map written cbs)) \<Longrightarrow> modified_memory e a = None \<Longrightarrow>
     modified_memory (run cbs e) a = None"
proof -
  assume w: "a \<notin> set (concat (map written cbs))" and m: "modified_memory e a = None"
  from m have "a \<notin> dom (modified_memory e)" by (simp add: domIff)
  with w have "a \<notin> dom (modified_memory (run cbs e))" by (simp only: run_dom Un_iff) simp
  then show ?thesis by (simp add: domIff)
qed

text \<open>
  Claim C9: for an address \<open>a\<close> outside the code region that has never been written (no
  byte is stored for it, and no call of the sequence run since stores one at it),
  \<open>MemoryRead8\<close> returns the low 8 bits of \<open>a\<close>, that is \<open>a mod 256\<close>.
\<close>

theorem MemoryRead8_unmapped:
  assumes "\<not> IsInCodeMem e a"
    and "modified_memory e a = None"
    and "a \<notin> set (concat (map written cbs))"
  shows "fst (MemoryRead8 (run cbs e) a) = ucast a \<and>
         unat (fst (MemoryRead8 (run cbs e) a)) = unat a mod 256"
proof -
  have "modified_memory (run cbs e) a = None"
    using assms by (simp add: run_unwritten)
  then have r: "fst (MemoryRead8 (run cbs e) a) = ucast a"
    using assms(1) by (simp add: MemoryRead8_def)
  have "unat (ucast a :: u8) = unat a mod 256"
    by (simp add: unsigned_ucast_eq take_bit_eq_mod)
  with r show ?thesis by simp
qed

theorem MemoryRead8_unmapped_witness:
  "\<not> IsInCodeMem main_env 0x1234 \<and>
   modified_memory main_env 0x1234 = None \<and>
   0x1234 \<notin> set (concat (map written
      [CbMemoryWrite32 0x1230 0xDEADBEEF, CbMemoryWrite8 0x1235 7, CbAddTicks 3 :: unit callback])) \<and>
   fst (MemoryRead8
          (run [CbMemoryWrite32 0x1230 0xDEADBEEF, CbMemoryWrite8 0x1235 7, CbAddTicks 3 :: unit callback]
             main_env) 0x1234) = 0x34"
proof -
  have h: "\<not> IsInCodeMem main_env 0x1234" by (simp add: IsInCodeMem_def)
  have i: "modified_memory main_env 0x1234 = None" by simp
  have j: "0x1234 \<notin> set (concat (map written
      [CbMemoryWrite32 0x1230 0xDEADBEEF, CbMemoryWrite8 0x1235 7, CbAddTicks 3 :: unit callback]))"
    by simp
  show ?thesis using h i j MemoryRead8_unmapped [OF h i j] by simp
qed

subsection \<open>Reads and queries change nothing\<close>

text \<open>
  Claim C10: \<open>MemoryReadCode\<close>, the reads of 8, 16, 32, 64 and 128 bits,
  \<open>GetTicksRemaining\<close> and \<open>GetCNTPCT\<close> each return the environment they were called on:
  every field is unchanged.
\<close>

theorem reads_leave_state:
  "snd (MemoryReadCode e a) = e \<and>
   snd (MemoryRead8 e a) = e \<and>
   snd (MemoryRead16 e a) = e \<and>
   snd (MemoryRead32 e a) = e \<and>
   snd (MemoryRead64 e a) = e \<and>
   snd (MemoryRead128 e a) = e \<and>
   snd (GetTicksRemaining e) = e \<and>
   snd (GetCNTPCT e) = e"
  by (simp add: MemoryRead16_eq MemoryRead32_eq MemoryRead64_eq MemoryRead128_eq
      GetTicksRemaining_def GetCNTPCT_def)

end
